theory Spec2Isabelle
  imports Main
begin

section \<open>JavaScript values\<close>

text \<open>
  The rows, index values and keys of a dataframe are JavaScript values. Numbers are
  modelled as integers together with \<open>JNaN\<close> (floating point is not modelled). An object
  is its reference (two objects are the same object exactly when the references agree)
  and its own enumerable properties, in the order JavaScript enumerates them.
  \<open>JNative k\<close> is the built-in value every plain object inherits under the property
  name \<open>k\<close> (for instance the function \<open>Object.prototype.toString\<close>).
\<close>

datatype jsval =
    JUndefined
  | JNull
  | JBool bool
  | JNum int
  | JNaN
  | JStr string
  | JObject nat "(string \<times> jsval) list"
  | JNative string

datatype error = Error string | TypeError string

text \<open>The operator \<open>===\<close>: \<open>NaN\<close> equals nothing, objects are compared by reference.\<close>

definition strictEquals :: "jsval \<Rightarrow> jsval \<Rightarrow> bool" where
  "strictEquals a b =
     (if a = JNaN \<or> b = JNaN then False
      else (case (a, b) of
              (JObject r _, JObject s _) \<Rightarrow> r = s
            | _ \<Rightarrow> a = b))"

text \<open>The test \<open>v == undefined\<close>, which holds of \<open>undefined\<close> and of \<open>null\<close> only.\<close>

definition looseEqualsUndefined :: "jsval \<Rightarrow> bool" where
  "looseEqualsUndefined v = (v = JUndefined \<or> v = JNull)"

text \<open>Decimal text of a natural number and of an integer, as \<open>String(n)\<close> gives it.\<close>

definition digitChar :: "nat \<Rightarrow> char" where
  "digitChar d = ''0123456789'' ! (d mod 10)"

function showNat :: "nat \<Rightarrow> string" where
  "showNat n = (if n < 10 then [digitChar n] else showNat (n div 10) @ [digitChar (n mod 10)])"
  by pat_completeness auto
termination
  by (relation "measure id") auto

declare showNat.simps [simp del]

definition showInt :: "int \<Rightarrow> string" where
  "showInt i = (if i < 0 then CHR ''-'' # showNat (nat (- i)) else showNat (nat i))"

text \<open>
  The properties a plain object (\<open>{}\<close>) inherits from \<open>Object.prototype\<close>. Reading one
  of these names from an object that has no own property of that name gives a built-in
  value, not \<open>undefined\<close>.
\<close>

definition objectPrototypeProps :: "string list" where
  "objectPrototypeProps =
     [''constructor'', ''__defineGetter__'', ''__defineSetter__'', ''hasOwnProperty'',
      ''__lookupGetter__'', ''__lookupSetter__'', ''isPrototypeOf'',
      ''propertyIsEnumerable'', ''toString'', ''valueOf'', ''__proto__'',
      ''toLocaleString'']"

definition nativeText :: "string \<Rightarrow> string" where
  "nativeText k =
     (if k = ''__proto__'' then ''[object Object]''
      else if k = ''constructor'' then ''function Object() { [native code] }''
      else ''function '' @ k @ ''() { [native code] }'')"

text \<open>
  Coercion of a value to a property key (\<open>String(v)\<close>), as \<open>obj[v]\<close> performs it. An
  object is taken to have the \<open>toString\<close> of \<open>Object.prototype\<close>.
\<close>

fun toPropertyKey :: "jsval \<Rightarrow> string" where
  "toPropertyKey JUndefined = ''undefined''"
| "toPropertyKey JNull = ''null''"
| "toPropertyKey (JBool b) = (if b then ''true'' else ''false'')"
| "toPropertyKey (JNum i) = showInt i"
| "toPropertyKey JNaN = ''NaN''"
| "toPropertyKey (JStr s) = s"
| "toPropertyKey (JObject r fs) = ''[object Object]''"
| "toPropertyKey (JNative k) = nativeText k"

text \<open>
  A plain object used as a dictionary: its own properties are a map from property names,
  and a read falls back to the inherited properties.
\<close>

datatype 'a slot = Own 'a | Inherited | Absent

definition objectGet :: "(string \<rightharpoonup> 'a) \<Rightarrow> string \<Rightarrow> 'a slot" where
  "objectGet obj k =
     (case obj k of
        Some v \<Rightarrow> Own v
      | None \<Rightarrow> if k \<in> set objectPrototypeProps then Inherited else Absent)"

text \<open>\<open>String.prototype.toLowerCase\<close> on ASCII text.\<close>

definition lowerChar :: "char \<Rightarrow> char" where
  "lowerChar c =
     (case map_of (zip ''ABCDEFGHIJKLMNOPQRSTUVWXYZ'' ''abcdefghijklmnopqrstuvwxyz'') c of
        Some l \<Rightarrow> l
      | None \<Rightarrow> c)"

definition toLowerCase :: "string \<Rightarrow> string" where
  "toLowerCase s = map lowerChar s"

section \<open>Content of a dataframe\<close>

text \<open>
  An index is either the default counting sequence \<open>0, 1, 2, \<dots>\<close> (which never ends) or
  a finite sequence of values.
\<close>

datatype indexIterable = CountIterable | IndexIterable "jsval list"

record 'v content =
  index :: indexIterable
  values' :: "'v list"
  pairs :: "(jsval \<times> 'v) list"
  columnNames :: "string list"
  isBaked :: bool

text \<open>
  Modelled from the spec: \<open>MultiIterable\<close> (iterables/multi-iterable) over an index and
  a value sequence steps both and stops at the shorter one.
\<close>

fun multiIterable :: "indexIterable \<Rightarrow> 'v list \<Rightarrow> (jsval \<times> 'v) list" where
  "multiIterable CountIterable vs = zip (map (\<lambda>n. JNum (int n)) [0..<length vs]) vs"
| "multiIterable (IndexIterable is) vs = zip is vs"


text \<open>
  Modelled from the spec: the loop of \<open>makeDistinct\<close> (utils), which skips the elements
  already seen.
\<close>

fun distinctFrom :: "'a list \<Rightarrow> 'a list \<Rightarrow> 'a list" where
  "distinctFrom seen [] = []"
| "distinctFrom seen (x # xs) =
     (if x \<in> set seen then distinctFrom seen xs else x # distinctFrom (x # seen) xs)"

text \<open>
  Modelled from the spec: \<open>makeDistinct\<close> (utils) keeps the first occurrence of every
  element and preserves the first-seen order.
\<close>

definition makeDistinct :: "'a list \<Rightarrow> 'a list" where
  "makeDistinct xs = distinctFrom [] xs"

text \<open>
  \<open>Object.keys\<close>: the own enumerable property names of a value; it throws on
  \<open>undefined\<close> and \<open>null\<close>, and a string has one property per character.
\<close>

fun objectKeys :: "jsval \<Rightarrow> error + string list" where
  "objectKeys JUndefined = Inl (TypeError ''Cannot convert undefined or null to object'')"
| "objectKeys JNull = Inl (TypeError ''Cannot convert undefined or null to object'')"
| "objectKeys (JObject r fs) = Inr (map fst fs)"
| "objectKeys (JStr s) = Inr (map showNat [0..<length s])"
| "objectKeys v = Inr []"

text \<open>
  Modelled from the spec: the keys a row contributes to the column names inferred by
  \<open>ColumnNamesIterable\<close>; a row without keys contributes none.
\<close>

definition rowKeys :: "jsval \<Rightarrow> string list" where
  "rowKeys v = (case objectKeys v of Inl e \<Rightarrow> [] | Inr ks \<Rightarrow> ks)"

text \<open>
  Modelled from the spec: \<open>ColumnNamesIterable\<close> (iterables/column-names-iterable)
  infers the column names from the first row's keys, or from the keys of all rows when
  \<open>considerAllRows\<close> is set.
\<close>

definition columnNamesIterable :: "jsval list \<Rightarrow> bool \<Rightarrow> string list" where
  "columnNamesIterable vs considerAllRows =
     (if considerAllRows then makeDistinct (concat (map rowKeys vs))
      else (case vs of [] \<Rightarrow> [] | v # _ \<Rightarrow> rowKeys v))"

subsection \<open>\<open>DataFrame.initColumnNames\<close>\<close>

text \<open>
  The two dictionaries of \<open>initColumnNames\<close> are plain objects. A property of theirs holds
  a number, or, once \<open>1\<close> has been added to an inherited built-in value, a text that
  starts with the built-in's text (such a text is never numeric).
\<close>

datatype cell = Number nat | NativeText string

fun plusOne :: "cell \<Rightarrow> cell" where
  "plusOne (Number n) = Number (n + 1)"
| "plusOne (NativeText s) = NativeText (s @ ''1'')"

fun cellText :: "cell \<Rightarrow> string" where
  "cellText (Number n) = showNat n"
| "cellText (NativeText s) = s"

text \<open>
  An assignment \<open>obj[k] = v\<close> of a number or a string: assigning a primitive to
  \<open>__proto__\<close> is ignored.
\<close>

definition objectSet :: "(string \<rightharpoonup> 'a) \<Rightarrow> string \<Rightarrow> 'a \<Rightarrow> (string \<rightharpoonup> 'a)" where
  "objectSet obj k v = (if k = ''__proto__'' then obj else obj(k \<mapsto> v))"

text \<open>The body of the first loop: \<open>columnNamesMap[columnNameLwr]\<close> is set to 1 or incremented.\<close>

definition countColumnName :: "(string \<rightharpoonup> cell) \<Rightarrow> string \<Rightarrow> (string \<rightharpoonup> cell)" where
  "countColumnName columnNamesMap columnName =
     (let columnNameLwr = toLowerCase columnName in
      case objectGet columnNamesMap columnNameLwr of
        Absent \<Rightarrow> objectSet columnNamesMap columnNameLwr (Number 1)
      | Own c \<Rightarrow> objectSet columnNamesMap columnNameLwr (plusOne c)
      | Inherited \<Rightarrow>
          objectSet columnNamesMap columnNameLwr (NativeText (nativeText columnNameLwr @ ''1'')))"

fun countColumnNames :: "(string \<rightharpoonup> cell) \<Rightarrow> string list \<Rightarrow> (string \<rightharpoonup> cell)" where
  "countColumnNames columnNamesMap [] = columnNamesMap"
| "countColumnNames columnNamesMap (columnName # rest) =
     countColumnNames (countColumnName columnNamesMap columnName) rest"

text \<open>The test \<open>columnNamesMap[columnNameLwr] > 1\<close>: only a number can exceed 1.\<close>

fun greaterThanOne :: "cell slot \<Rightarrow> bool" where
  "greaterThanOne (Own (Number n)) = (1 < n)"
| "greaterThanOne (Own (NativeText s)) = False"
| "greaterThanOne Inherited = False"
| "greaterThanOne Absent = False"

text \<open>The second loop; the names pushed to \<open>outputColumnNames\<close> are returned in order.\<close>

fun renameColumnNames ::
  "(string \<rightharpoonup> cell) \<Rightarrow> (string \<rightharpoonup> cell) \<Rightarrow> string list \<Rightarrow> string list" where
  "renameColumnNames columnNamesMap columnNoMap [] = []"
| "renameColumnNames columnNamesMap columnNoMap (columnName # rest) =
     (let columnNameLwr = toLowerCase columnName in
      if greaterThanOne (objectGet columnNamesMap columnNameLwr) then
        (let curColumnNo =
               (case objectGet columnNoMap columnNameLwr of
                  Absent \<Rightarrow> Number 1
                | Own c \<Rightarrow> c
                | Inherited \<Rightarrow> NativeText (nativeText columnNameLwr))
         in (columnName @ ''.'' @ cellText curColumnNo)
              # renameColumnNames columnNamesMap
                  (objectSet columnNoMap columnNameLwr (plusOne curColumnNo)) rest)
      else columnName # renameColumnNames columnNamesMap columnNoMap rest)"

definition initColumnNames :: "string list \<Rightarrow> string list" where
  "initColumnNames inputColumnNames =
     renameColumnNames (countColumnNames Map.empty inputColumnNames) Map.empty inputColumnNames"

subsection \<open>Construction\<close>

text \<open>
  The configuration object of the constructor, without the \<open>rows\<close> and \<open>columns\<close>
  fields, which none of the operators below passes. An absent field is \<open>None\<close>.
\<close>

record config =
  cfg_values :: "jsval list option"
  cfg_index :: "indexIterable option"
  cfg_pairs :: "(jsval \<times> jsval) list option"
  cfg_columnNames :: "string list option"
  cfg_baked :: "bool option"
  cfg_considerAllRows :: bool

definition emptyConfig :: config where
  "emptyConfig =
     \<lparr>cfg_values = None, cfg_index = None, cfg_pairs = None, cfg_columnNames = None,
      cfg_baked = None, cfg_considerAllRows = False\<rparr>"

definition initFromArray :: "jsval list \<Rightarrow> error + jsval content" where
  "initFromArray arr =
     (case (case arr of [] \<Rightarrow> Inr [] | firstValue # _ \<Rightarrow> objectKeys firstValue) of
        Inl e \<Rightarrow> Inl e
      | Inr names \<Rightarrow>
          Inr \<lparr>index = CountIterable, values' = arr, pairs = multiIterable CountIterable arr,
               columnNames = names, isBaked = True\<rparr>)"

definition initEmpty :: "jsval content" where
  "initEmpty =
     \<lparr>index = IndexIterable [], values' = [], pairs = [], columnNames = [], isBaked = True\<rparr>"

definition initFromConfig :: "config \<Rightarrow> jsval content" where
  "initFromConfig config =
     (let givenNames = map_option initColumnNames (cfg_columnNames config);
          inferred = (\<lambda>vs. case givenNames of
                              Some names \<Rightarrow> names
                            | None \<Rightarrow> columnNamesIterable vs (cfg_considerAllRows config));
          (vals, names) =
             (case cfg_values config of
                Some vs \<Rightarrow> (vs, inferred vs)
              | None \<Rightarrow>
                 (case cfg_pairs config of
                    Some ps \<Rightarrow> (map snd ps, inferred (map snd ps))
                  | None \<Rightarrow> ([], case givenNames of Some names \<Rightarrow> names | None \<Rightarrow> [])));
          idx =
             (case cfg_index config of
                Some i \<Rightarrow> i
              | None \<Rightarrow>
                 (case cfg_pairs config of
                    Some ps \<Rightarrow> IndexIterable (map fst ps)
                  | None \<Rightarrow> CountIterable));
          prs = (case cfg_pairs config of Some ps \<Rightarrow> ps | None \<Rightarrow> multiIterable idx vals);
          baked = (case cfg_baked config of Some b \<Rightarrow> b | None \<Rightarrow> False)
      in \<lparr>index = idx, values' = vals, pairs = prs, columnNames = names, isBaked = baked\<rparr>)"

section \<open>Operators of \<open>DataFrame\<close>\<close>

text \<open>
  A dataframe is modelled by its content: the lazily evaluated configuration function of
  the source is evaluated at once, which gives the same content since the selectors and
  predicates are functions.
\<close>

definition toArray :: "jsval content \<Rightarrow> jsval list" where
  "toArray this = filter (\<lambda>v. \<not> strictEquals v JUndefined) (values' this)"

definition toPairs :: "jsval content \<Rightarrow> (jsval \<times> jsval) list" where
  "toPairs this = filter (\<lambda>pair. \<not> looseEqualsUndefined (snd pair)) (pairs this)"

definition count :: "jsval content \<Rightarrow> nat" where
  "count this = length (values' this)"

definition first :: "'v content \<Rightarrow> error + 'v" where
  "first this =
     (case values' this of
        v # _ \<Rightarrow> Inr v
      | [] \<Rightarrow> Inl (Error ''No values in Series.''))"

text \<open>\<open>last\<close>: the loop leaves in \<open>lastValue\<close> the last value iterated, or the initial \<open>null\<close>.\<close>

definition last' :: "jsval content \<Rightarrow> error + jsval" where
  "last' this =
     (let lastValue = foldl (\<lambda>lastValue v. v) JNull (values' this) in
      if strictEquals lastValue JNull then Inl (Error ''No values in Series.'')
      else Inr lastValue)"

definition any :: "('v \<Rightarrow> bool) option \<Rightarrow> 'v content \<Rightarrow> bool" where
  "any predicate this =
     (case predicate of
        Some p \<Rightarrow> list_ex p (values' this)
      | None \<Rightarrow> values' this \<noteq> [])"

definition none :: "('v \<Rightarrow> bool) option \<Rightarrow> 'v content \<Rightarrow> bool" where
  "none predicate this =
     (case predicate of
        Some p \<Rightarrow> \<not> list_ex p (values' this)
      | None \<Rightarrow> values' this = [])"

text \<open>
  Modelled from the spec: \<open>WhereIterable\<close> (iterables/where-iterable) keeps the elements
  on which the predicate holds.
\<close>

definition whereIterable :: "('a \<Rightarrow> bool) \<Rightarrow> 'a list \<Rightarrow> 'a list" where
  "whereIterable predicate xs = filter predicate xs"

text \<open>
  Modelled from the spec: \<open>SelectIterable\<close> (iterables/select-iterable) maps every
  element, passing its position in the sequence to the selector.
\<close>

definition selectIterable :: "('a \<Rightarrow> nat \<Rightarrow> 'b) \<Rightarrow> 'a list \<Rightarrow> 'b list" where
  "selectIterable selector xs = map (\<lambda>(i, x). selector x i) (enumerate 0 xs)"

definition where_df :: "(jsval \<Rightarrow> bool) \<Rightarrow> jsval content \<Rightarrow> jsval content" where
  "where_df predicate this =
     initFromConfig
       (emptyConfig
          \<lparr>cfg_columnNames := Some (columnNames this),
           cfg_values := Some (whereIterable predicate (values' this)),
           cfg_pairs := Some (whereIterable (\<lambda>pair. predicate (snd pair)) (pairs this))\<rparr>)"



text \<open>
  \<open>intersection\<close> and \<open>except\<close>: an absent selector is the identity; an outer row is kept
  when some (no) inner row has a strictly equal key.
\<close>

definition selectorOrIdentity :: "(jsval \<Rightarrow> jsval) option \<Rightarrow> jsval \<Rightarrow> jsval" where
  "selectorOrIdentity selector = (case selector of Some f \<Rightarrow> f | None \<Rightarrow> (\<lambda>value. value))"

definition intersection ::
  "jsval content \<Rightarrow> (jsval \<Rightarrow> jsval) option \<Rightarrow> (jsval \<Rightarrow> jsval) option \<Rightarrow> jsval content
     \<Rightarrow> jsval content" where
  "intersection inner outerSelector innerSelector outer =
     where_df
       (\<lambda>outerValue.
          let outerKey = selectorOrIdentity outerSelector outerValue in
          any None
            (where_df
               (\<lambda>innerValue. strictEquals outerKey (selectorOrIdentity innerSelector innerValue))
               inner))
       outer"

definition except ::
  "jsval content \<Rightarrow> (jsval \<Rightarrow> jsval) option \<Rightarrow> (jsval \<Rightarrow> jsval) option \<Rightarrow> jsval content
     \<Rightarrow> jsval content" where
  "except inner outerSelector innerSelector outer =
     where_df
       (\<lambda>outerValue.
          let outerKey = selectorOrIdentity outerSelector outerValue in
          none None
            (where_df
               (\<lambda>innerValue. strictEquals outerKey (selectorOrIdentity innerSelector innerValue))
               inner))
       outer"

definition getColumnNames :: "jsval content \<Rightarrow> string list" where
  "getColumnNames this = columnNames this"



section \<open>Series\<close>

text \<open>
  A value of the class \<open>Series\<close> (series.ts, not among the sources) is modelled by the
  same content record, without column names.
\<close>

text \<open>
  Modelled from the spec: the constructor of \<open>Series\<close> takes values and optionally an
  index; the pairs are their zip.
\<close>

definition newSeries :: "'v list \<Rightarrow> indexIterable option \<Rightarrow> 'v content" where
  "newSeries vs idx =
     (let i = (case idx of Some i \<Rightarrow> i | None \<Rightarrow> CountIterable) in
      \<lparr>index = i, values' = vs, pairs = multiIterable i vs, columnNames = [], isBaked = False\<rparr>)"

text \<open>A traversal that maps a selector which may throw: the first exception ends it.\<close>

fun mapResult :: "('a \<Rightarrow> error + 'b) \<Rightarrow> 'a list \<Rightarrow> error + 'b list" where
  "mapResult f [] = Inr []"
| "mapResult f (x # xs) =
     (case f x of
        Inl e \<Rightarrow> Inl e
      | Inr y \<Rightarrow> (case mapResult f xs of Inl e \<Rightarrow> Inl e | Inr ys \<Rightarrow> Inr (y # ys)))"

text \<open>
  Modelled from the spec: \<open>Series.select\<close> maps the values by the selector, which gets
  the value and its position, and keeps the index. The series is lazy: an exception of
  the selector is thrown when the series is traversed, and is the result here.
\<close>

definition series_select ::
  "('a \<Rightarrow> nat \<Rightarrow> error + 'b) \<Rightarrow> 'a content \<Rightarrow> error + 'b content" where
  "series_select sel this =
     (case mapResult (\<lambda>(i, v). sel v i) (enumerate 0 (values' this)) of
        Inl e \<Rightarrow> Inl e
      | Inr vs \<Rightarrow> Inr (newSeries vs (Some (index this))))"

text \<open>
  Modelled from the spec: \<open>Series.withIndex\<close> with a selector replaces the index by what
  the selector makes of every value.
\<close>

definition series_withIndex :: "('v \<Rightarrow> jsval) \<Rightarrow> 'v content \<Rightarrow> 'v content" where
  "series_withIndex sel this =
     newSeries (values' this) (Some (IndexIterable (map sel (values' this))))"

text \<open>
  Modelled from the spec: \<open>Series.inflate\<close> gives the dataframe of the rows the selector
  makes of the values, on the same index; the column names are inferred from the rows.
\<close>

definition series_inflate :: "('v \<Rightarrow> nat \<Rightarrow> jsval) \<Rightarrow> 'v content \<Rightarrow> jsval content" where
  "series_inflate sel this =
     initFromConfig
       (emptyConfig
          \<lparr>cfg_values := Some (selectIterable sel (values' this)),
           cfg_index := Some (index this)\<rparr>)"

text \<open>
  Modelled from the spec: \<open>Series.toPairs\<close> gives the pairs of the series and omits the
  entries whose value is undefined.
\<close>

definition series_toPairs :: "jsval content \<Rightarrow> (jsval \<times> jsval) list" where
  "series_toPairs this = filter (\<lambda>pair. \<not> strictEquals (snd pair) JUndefined) (pairs this)"

text \<open>
  Modelled from the spec: \<open>toMap\<close> (utils) builds a key\<rightarrow>value map from a sequence; a
  later item replaces an earlier one of the same key. The map is a plain object: the keys
  are property keys, so two keys are the same when they coerce to the same text, and the
  own properties of the object are those that were stored.
\<close>

definition toMap :: "'a list \<Rightarrow> ('a \<Rightarrow> jsval) \<Rightarrow> ('a \<Rightarrow> 'b) \<Rightarrow> (string \<rightharpoonup> 'b)" where
  "toMap items keySelector valueSelector =
     foldl (\<lambda>output item. output(toPropertyKey (keySelector item) \<mapsto> valueSelector item))
       Map.empty items"

section \<open>Columns\<close>

text \<open>
  Reading a property \<open>v[k]\<close>. It throws on \<open>undefined\<close> and \<open>null\<close>; an object gives its
  own property, else the inherited one, else \<open>undefined\<close>. Of the properties of
  primitive values only those inherited from \<open>Object.prototype\<close> and the characters and
  the length of a string are modelled.
\<close>

definition inheritedProperty :: "string \<Rightarrow> jsval" where
  "inheritedProperty k = (if k \<in> set objectPrototypeProps then JNative k else JUndefined)"

fun getProperty :: "jsval \<Rightarrow> string \<Rightarrow> error + jsval" where
  "getProperty JUndefined k = Inl (TypeError ''Cannot read properties of undefined'')"
| "getProperty JNull k = Inl (TypeError ''Cannot read properties of null'')"
| "getProperty (JObject r fs) k =
     Inr (case map_of fs k of Some v \<Rightarrow> v | None \<Rightarrow> inheritedProperty k)"
| "getProperty (JStr s) k =
     Inr (if k = ''length'' then JNum (int (length s))
          else (case map_of (zip (map showNat [0..<length s]) (map (\<lambda>c. JStr [c]) s)) k of
                  Some v \<Rightarrow> v
                | None \<Rightarrow> inheritedProperty k))"
| "getProperty v k = Inr (inheritedProperty k)"

text \<open>
  \<open>getSeries\<close>: the series is lazy in the source; its content, or the \<open>TypeError\<close> that
  traversing it throws at a row that is \<open>undefined\<close> or \<open>null\<close>, is given here.
\<close>

definition getSeries :: "string \<Rightarrow> jsval content \<Rightarrow> error + jsval content" where
  "getSeries columnName this =
     (case mapResult (\<lambda>row. getProperty row columnName) (values' this) of
        Inl e \<Rightarrow> Inl e
      | Inr vs \<Rightarrow> Inr (newSeries vs (Some (index this))))"

definition hasSeries :: "string \<Rightarrow> jsval content \<Rightarrow> bool" where
  "hasSeries columnName this =
     (let columnNameLwr = toLowerCase columnName in
      list_ex (\<lambda>existingColumnName. toLowerCase existingColumnName = columnNameLwr)
        (getColumnNames this))"

definition expectSeries :: "string \<Rightarrow> jsval content \<Rightarrow> error + jsval content" where
  "expectSeries columnName this =
     (if \<not> hasSeries columnName this then
        Inl (Error (''Expected dataframe to contain series with column name: ''
                    @ [CHR 39] @ columnName @ [CHR 39] @ ''.''))
      else getSeries columnName this)"

text \<open>
  \<open>Object.assign({}, value)\<close> makes a new object (of reference \<open>ref\<close>) with the own
  properties of \<open>value\<close>; \<open>modified[k] = v\<close> replaces the own property \<open>k\<close> or adds it
  last. Assigning to \<open>__proto__\<close> adds no own property (it replaces the prototype when
  the value is an object, which a value of the model, holding the own properties only,
  does not record).
\<close>

fun objectAssign :: "nat \<Rightarrow> jsval \<Rightarrow> jsval" where
  "objectAssign ref (JObject r fs) = JObject ref fs"
| "objectAssign ref (JStr s) =
     JObject ref (zip (map showNat [0..<length s]) (map (\<lambda>c. JStr [c]) s))"
| "objectAssign ref v = JObject ref []"

fun updateProperty :: "string \<Rightarrow> jsval \<Rightarrow> (string \<times> jsval) list \<Rightarrow> (string \<times> jsval) list" where
  "updateProperty k v [] = [(k, v)]"
| "updateProperty k v (p # ps) = (if fst p = k then (k, v) # ps else p # updateProperty k v ps)"

fun setProperty :: "jsval \<Rightarrow> string \<Rightarrow> jsval \<Rightarrow> jsval" where
  "setProperty (JObject r fs) k v =
     (if k = ''__proto__'' then JObject r fs else JObject r (updateProperty k v fs))"
| "setProperty obj k v = obj"

text \<open>
  \<open>withSeries(columnName, series)\<close> with a column name (given an object of several
  columns instead, the method calls itself once per column). The series argument is a
  series or a function that makes one from the dataframe. \<open>newRef i\<close> is the reference of
  the object made for the row at position \<open>i\<close>.
\<close>

datatype seriesArg = SeriesValue "jsval content" | SeriesFn "jsval content \<Rightarrow> jsval content"

fun importSeriesOf :: "seriesArg \<Rightarrow> jsval content \<Rightarrow> jsval content" where
  "importSeriesOf (SeriesValue s) this = s"
| "importSeriesOf (SeriesFn f) this = f this"

text \<open>
  The read \<open>seriesValueMap[index]\<close> of a plain object: the value stored under the key the
  index coerces to, else the built-in value inherited under that name, else \<open>undefined\<close>.
\<close>

definition lookupOrUndefined :: "(string \<rightharpoonup> jsval) \<Rightarrow> jsval \<Rightarrow> jsval" where
  "lookupOrUndefined m k =
     (case objectGet m (toPropertyKey k) of
        Own v \<Rightarrow> v
      | Inherited \<Rightarrow> JNative (toPropertyKey k)
      | Absent \<Rightarrow> JUndefined)"

definition withSeries ::
  "(nat \<Rightarrow> nat) \<Rightarrow> string \<Rightarrow> seriesArg \<Rightarrow> jsval content \<Rightarrow> jsval content" where
  "withSeries newRef columnName series this =
     (if none None this then
        series_inflate (\<lambda>value i. setProperty (JObject (newRef i) []) columnName value)
          (importSeriesOf series this)
      else
        (let importSeries = importSeriesOf series this;
             seriesValueMap = toMap (series_toPairs importSeries) fst snd;
             newColumnNames = makeDistinct (getColumnNames this @ [columnName])
         in initFromConfig
              (emptyConfig
                 \<lparr>cfg_columnNames := Some newColumnNames,
                  cfg_index := Some (index this),
                  cfg_pairs :=
                    Some (selectIterable
                            (\<lambda>pair i.
                               (fst pair,
                                setProperty (objectAssign (newRef i) (snd pair)) columnName
                                  (lookupOrUndefined seriesValueMap (fst pair))))
                            (pairs this))\<rparr>)))"

section \<open>Windows and groups\<close>

text \<open>
  Modelled from the spec: the runs of a variable window. A new run starts whenever the
  comparer is false of the previous and the current element; adjacent elements only are
  compared.
\<close>

fun splitRuns :: "('a \<Rightarrow> 'a \<Rightarrow> bool) \<Rightarrow> 'a list \<Rightarrow> 'a list list" where
  "splitRuns comparer [] = []"
| "splitRuns comparer [x] = [[x]]"
| "splitRuns comparer (x # y # rest) =
     (case splitRuns comparer (y # rest) of
        [] \<Rightarrow> [[x]]
      | run # runs \<Rightarrow> if comparer x y then (x # run) # runs else [x] # run # runs)"

text \<open>
  Modelled from the spec: \<open>DataFrameVariableWindowIterable\<close>
  (iterables/dataframe-variable-window-iterable) cuts the pairs into runs by comparing
  the rows; every run becomes a fresh dataframe of those pairs with the parent's column
  names.
\<close>

definition variableWindowIterable ::
  "string list \<Rightarrow> (jsval \<times> jsval) list \<Rightarrow> (jsval \<Rightarrow> jsval \<Rightarrow> bool) \<Rightarrow> jsval content list" where
  "variableWindowIterable names prs comparer =
     map (\<lambda>run. initFromConfig
                  (emptyConfig \<lparr>cfg_columnNames := Some names, cfg_pairs := Some run\<rparr>))
       (splitRuns (\<lambda>a b. comparer (snd a) (snd b)) prs)"

definition variableWindow ::
  "(jsval \<Rightarrow> jsval \<Rightarrow> bool) \<Rightarrow> jsval content \<Rightarrow> jsval content content" where
  "variableWindow comparer this =
     newSeries (variableWindowIterable (columnNames this) (pairs this) comparer) None"

text \<open>
  Modelled from the spec: \<open>Index.first\<close> (index.ts) is the first key of the index and
  fails on an empty index, as \<open>first\<close> does.
\<close>

definition index_first :: "jsval content \<Rightarrow> error + jsval" where
  "index_first this =
     (case index this of
        CountIterable \<Rightarrow> Inr (JNum 0)
      | IndexIterable [] \<Rightarrow> Inl (Error ''No values in Series.'')
      | IndexIterable (i # _) \<Rightarrow> Inr i)"

text \<open>
  \<open>sequentialDistinct\<close>: the selector of the \<open>select\<close> step reads the first index and the
  first row of every window; an exception there ends the traversal.
\<close>

definition windowHead :: "jsval content \<Rightarrow> error + (jsval \<times> jsval)" where
  "windowHead window =
     (case index_first window of
        Inl e \<Rightarrow> Inl e
      | Inr i \<Rightarrow> (case first window of Inl e \<Rightarrow> Inl e | Inr v \<Rightarrow> Inr (i, v)))"

definition sequentialDistinct ::
  "(jsval \<Rightarrow> jsval) option \<Rightarrow> jsval content \<Rightarrow> error + jsval content" where
  "sequentialDistinct selector this =
     (let sel = selectorOrIdentity selector;
          windows = variableWindow (\<lambda>a b. strictEquals (sel a) (sel b)) this
      in case series_select (\<lambda>window i. windowHead window) windows of
           Inl e \<Rightarrow> Inl e
         | Inr heads \<Rightarrow> Inr (series_inflate (\<lambda>pair i. snd pair) (series_withIndex fst heads)))"

text \<open>
  \<open>groupBy\<close>. \<open>groups\<close> is the array of groups in order of discovery; \<open>groupMap\<close> is a
  plain object that holds, under the key the selector's output coerces to, a reference
  to one of these arrays, given here by its position in \<open>groups\<close>. When the key names an
  inherited property, \<open>existingGroup\<close> is a built-in value, which is truthy and has no
  \<open>push\<close>: the call throws.
\<close>

fun groupByLoop ::
  "(jsval \<Rightarrow> nat \<Rightarrow> jsval) \<Rightarrow> (jsval \<times> jsval) list list \<Rightarrow> (string \<rightharpoonup> nat) \<Rightarrow> nat
     \<Rightarrow> (jsval \<times> jsval) list \<Rightarrow> error + (jsval \<times> jsval) list list" where
  "groupByLoop selector groups groupMap valueIndex [] = Inr groups"
| "groupByLoop selector groups groupMap valueIndex (pair # rest) =
     (let groupKey = toPropertyKey (selector (snd pair) valueIndex) in
      case objectGet groupMap groupKey of
        Own g \<Rightarrow>
          groupByLoop selector (groups[g := groups ! g @ [pair]]) groupMap (valueIndex + 1) rest
      | Inherited \<Rightarrow> Inl (TypeError ''existingGroup.push is not a function'')
      | Absent \<Rightarrow>
          groupByLoop selector (groups @ [[pair]]) (groupMap(groupKey \<mapsto> length groups))
            (valueIndex + 1) rest)"

definition groupBy ::
  "(jsval \<Rightarrow> nat \<Rightarrow> jsval) \<Rightarrow> jsval content \<Rightarrow> error + jsval content content" where
  "groupBy selector this =
     (case groupByLoop selector [] Map.empty 0 (pairs this) of
        Inl e \<Rightarrow> Inl e
      | Inr groups \<Rightarrow>
          Inr (newSeries
                 (map (\<lambda>group. initFromConfig (emptyConfig \<lparr>cfg_pairs := Some group\<rparr>)) groups)
                 None))"

section \<open>Joins\<close>

text \<open>
  Modelled from the spec: \<open>Series.toObject\<close> (series.ts) is \<open>toMap\<close> over the values of
  the series.
\<close>

definition series_toObject ::
  "('v \<Rightarrow> error + jsval) \<Rightarrow> 'v content \<Rightarrow> error + (string \<rightharpoonup> 'v)" where
  "series_toObject keySelector this =
     (case mapResult keySelector (values' this) of
        Inl e \<Rightarrow> Inl e
      | Inr keys \<Rightarrow> Inr (toMap (zip keys (values' this)) fst snd))"

text \<open>
  The \<open>length\<close> of the built-in value inherited under a name: a function has the number
  of its declared parameters; \<open>Object.prototype\<close> itself (under \<open>__proto__\<close>) has none.
\<close>

definition nativeLength :: "string \<Rightarrow> nat option" where
  "nativeLength k =
     (if k = ''__proto__'' then None
      else if k \<in> set [''__defineGetter__'', ''__defineSetter__''] then Some 2
      else if k \<in> set [''toString'', ''valueOf'', ''toLocaleString''] then Some 0
      else Some 1)"

text \<open>
  The loop \<open>for (const innerValue of innerGroup)\<close> over the built-in value inherited under
  a name. Such a value has no iterator; the loop, as it is compiled for ES5, then walks a
  value that has a numeric \<open>length\<close> as an array, reading \<open>innerGroup[0]\<close>, \<open>innerGroup[1]\<close>,
  \<dots>, which are \<open>undefined\<close>, and throws on a value without \<open>length\<close>. (Run as
  ES2015 the loop throws on every such value; the two agree on the keys that name no
  inherited property, and the theorem on the outer joins is about those.)
\<close>

definition nativeItems :: "string \<Rightarrow> error + jsval list" where
  "nativeItems k =
     (case nativeLength k of
        Some n \<Rightarrow> Inr (replicate n JUndefined)
      | None \<Rightarrow> Inl (TypeError ''Object is not iterable.''))"

text \<open>
  The loop of \<open>join\<close> over the outer rows. \<open>innerMap\<close> is a plain object, so
  \<open>innerMap[outerKey]\<close> is the group stored under the key, else the built-in value
  inherited under that name (which is truthy), else \<open>undefined\<close> (which is not); the
  rows pushed to \<open>output\<close> are returned in order.
\<close>

definition joinOutput ::
  "(string \<rightharpoonup> jsval content) \<Rightarrow> (jsval \<Rightarrow> jsval) \<Rightarrow> (jsval \<Rightarrow> jsval \<Rightarrow> jsval) \<Rightarrow> jsval list
     \<Rightarrow> error + jsval list" where
  "joinOutput innerMap outerKeySelector resultSelector outerValues =
     (case mapResult
             (\<lambda>outerValue.
                let outerKey = toPropertyKey (outerKeySelector outerValue) in
                case objectGet innerMap outerKey of
                  Own innerGroup \<Rightarrow> Inr (map (resultSelector outerValue) (values' innerGroup))
                | Inherited \<Rightarrow>
                    (case nativeItems outerKey of
                       Inl e \<Rightarrow> Inl e
                     | Inr innerValues \<Rightarrow> Inr (map (resultSelector outerValue) innerValues))
                | Absent \<Rightarrow> Inr [])
             outerValues of
        Inl e \<Rightarrow> Inl e
      | Inr outputs \<Rightarrow> Inr (concat outputs))"

definition join ::
  "jsval content \<Rightarrow> (jsval \<Rightarrow> jsval) \<Rightarrow> (jsval \<Rightarrow> jsval) \<Rightarrow> (jsval \<Rightarrow> jsval \<Rightarrow> jsval)
     \<Rightarrow> jsval content \<Rightarrow> error + jsval content" where
  "join inner outerKeySelector innerKeySelector resultSelector outer =
     (case groupBy (\<lambda>v i. innerKeySelector v) inner of
        Inl e \<Rightarrow> Inl e
      | Inr groups \<Rightarrow>
         (case series_toObject (\<lambda>group. map_sum id innerKeySelector (first group)) groups of
            Inl e \<Rightarrow> Inl e
          | Inr innerMap \<Rightarrow>
             (case joinOutput innerMap outerKeySelector resultSelector (values' outer) of
                Inl e \<Rightarrow> Inl e
              | Inr output \<Rightarrow> Inr (initFromConfig (emptyConfig \<lparr>cfg_values := Some output\<rparr>)))))"




section \<open>Ordered dataframes\<close>

text \<open>
  Modelled from the spec: \<open>Direction\<close> (iterables/ordered-iterable), the direction of one
  sort level.
\<close>

datatype Direction = Ascending | Descending

text \<open>
  Modelled from the spec: \<open>ISortSpec\<close> (iterables/ordered-iterable), one level of a sort:
  its nesting level, the selector of its key, which receives the element and its position
  in the input, and its direction.
\<close>

record ('a, 'k) sortSpec =
  sortLevel :: nat
  selector :: "'a \<Rightarrow> nat \<Rightarrow> 'k"
  direction :: Direction

text \<open>
  Modelled from the spec: the comparison of \<open>OrderedIterable\<close>. Two elements are compared
  by the sort specs in turn, the first spec on which their keys differ deciding by its
  direction.
\<close>

fun comesBefore :: "('a, 'k::linorder) sortSpec list \<Rightarrow> 'a \<times> nat \<Rightarrow> 'a \<times> nat \<Rightarrow> bool" where
  "comesBefore [] a b = False"
| "comesBefore (spec # specs) a b =
     (let ka = selector spec (fst a) (snd a); kb = selector spec (fst b) (snd b) in
      if ka = kb then comesBefore specs a b
      else (case direction spec of Ascending \<Rightarrow> ka < kb | Descending \<Rightarrow> kb < ka))"

text \<open>
  Modelled from the spec: the sort of \<open>OrderedIterable\<close> is stable. The elements are
  inserted from the last of the input to the first; an element is placed after those that
  come before it and ahead of those that agree with it on every spec.
\<close>

fun insertSorted ::
  "('a, 'k::linorder) sortSpec list \<Rightarrow> 'a \<times> nat \<Rightarrow> ('a \<times> nat) list \<Rightarrow> ('a \<times> nat) list" where
  "insertSorted specs x [] = [x]"
| "insertSorted specs x (y # ys) =
     (if comesBefore specs y x then y # insertSorted specs x ys else x # y # ys)"

text \<open>
  Modelled from the spec: \<open>OrderedIterable\<close> (iterables/ordered-iterable) is the stable
  multi-key sort. It materializes the input and sorts it by the sort specs; elements that
  agree on every spec keep their input order.
\<close>

definition orderedIterable :: "'a list \<Rightarrow> ('a, 'k::linorder) sortSpec list \<Rightarrow> 'a list" where
  "orderedIterable xs specs =
     map fst (foldr (insertSorted specs) (zip xs [0..<length xs]) [])"

text \<open>
  The class \<open>OrderedDataFrame\<close>: the content it passes to the constructor of \<open>DataFrame\<close>
  and its own fields. The loop of the constructor walks the chain of parents through the
  parameter \<open>parent\<close> itself, so that \<open>this.parent = parent\<close> stores what the loop has left
  in it.
\<close>

datatype 'k orderedDataFrame =
  OrderedDataFrame
    (parent: "'k orderedDataFrame option")
    (selectorOf: "jsval \<Rightarrow> nat \<Rightarrow> 'k")
    (directionOf: Direction)
    (origValues: "jsval list")
    (origPairs: "(jsval \<times> jsval) list")
    (contentOf: "jsval content")

definition makeSortSpec :: "nat \<Rightarrow> ('a \<Rightarrow> nat \<Rightarrow> 'k) \<Rightarrow> Direction \<Rightarrow> ('a, 'k) sortSpec" where
  "makeSortSpec level sel dir = \<lparr>sortLevel = level, selector = sel, direction = dir\<rparr>"

definition makePairsSelector :: "(jsval \<Rightarrow> nat \<Rightarrow> 'k) \<Rightarrow> (jsval \<times> jsval) \<Rightarrow> nat \<Rightarrow> 'k" where
  "makePairsSelector sel = (\<lambda>pair i. sel (snd pair) i)"

text \<open>
  The \<open>while\<close> loop: it returns the two spec lists, the sort level and the parameter
  \<open>parent\<close> as the loop leaves them.
\<close>

fun parentSortSpecs ::
  "(jsval, 'k) sortSpec list \<Rightarrow> (jsval \<times> jsval, 'k) sortSpec list \<Rightarrow> nat
     \<Rightarrow> 'k orderedDataFrame option
     \<Rightarrow> (jsval, 'k) sortSpec list \<times> (jsval \<times> jsval, 'k) sortSpec list \<times> nat
          \<times> 'k orderedDataFrame option" where
  "parentSortSpecs valueSortSpecs pairSortSpecs level None =
     (valueSortSpecs, pairSortSpecs, level, None)"
| "parentSortSpecs valueSortSpecs pairSortSpecs level (Some (OrderedDataFrame p sel dir vs ps c)) =
     parentSortSpecs
       (valueSortSpecs @ [makeSortSpec level sel dir])
       (pairSortSpecs @ [makeSortSpec level (makePairsSelector sel) dir])
       (level + 1) p"

definition newOrderedDataFrame ::
  "jsval list \<Rightarrow> (jsval \<times> jsval) list \<Rightarrow> (jsval \<Rightarrow> nat \<Rightarrow> 'k::linorder) \<Rightarrow> Direction
     \<Rightarrow> 'k orderedDataFrame option \<Rightarrow> 'k orderedDataFrame" where
  "newOrderedDataFrame vs ps sel dir parent0 =
     (case parentSortSpecs [] [] 0 parent0 of
        (valueSortSpecs0, pairSortSpecs0, level, parent1) \<Rightarrow>
          (let valueSortSpecs = valueSortSpecs0 @ [makeSortSpec level sel dir];
               pairSortSpecs = pairSortSpecs0 @ [makeSortSpec level (makePairsSelector sel) dir]
           in OrderedDataFrame parent1 sel dir vs ps
                (initFromConfig
                   (emptyConfig
                      \<lparr>cfg_values := Some (orderedIterable vs valueSortSpecs),
                       cfg_pairs := Some (orderedIterable ps pairSortSpecs)\<rparr>))))"

definition orderBy :: "(jsval \<Rightarrow> nat \<Rightarrow> 'k::linorder) \<Rightarrow> jsval content \<Rightarrow> 'k orderedDataFrame" where
  "orderBy sel this = newOrderedDataFrame (values' this) (pairs this) sel Ascending None"

definition orderByDescending ::
  "(jsval \<Rightarrow> nat \<Rightarrow> 'k::linorder) \<Rightarrow> jsval content \<Rightarrow> 'k orderedDataFrame" where
  "orderByDescending sel this =
     newOrderedDataFrame (values' this) (pairs this) sel Descending None"

definition thenBy ::
  "(jsval \<Rightarrow> nat \<Rightarrow> 'k::linorder) \<Rightarrow> 'k orderedDataFrame \<Rightarrow> 'k orderedDataFrame" where
  "thenBy sel this =
     newOrderedDataFrame (origValues this) (origPairs this) sel Ascending (Some this)"

definition thenByDescending ::
  "(jsval \<Rightarrow> nat \<Rightarrow> 'k::linorder) \<Rightarrow> 'k orderedDataFrame \<Rightarrow> 'k orderedDataFrame" where
  "thenByDescending sel this =
     newOrderedDataFrame (origValues this) (origPairs this) sel Descending (Some this)"

section \<open>Selectors and rows of the examples\<close>

text \<open>
  The selector \<open>row => row[k]\<close> on object rows, as a selector of values and as a selector
  of numeric sort keys, and a row \<open>{ a: \<dots>, b: \<dots>, c: \<dots> }\<close>.
\<close>

definition fieldSelector :: "string \<Rightarrow> jsval \<Rightarrow> jsval" where
  "fieldSelector k row = (case getProperty row k of Inr v \<Rightarrow> v | Inl e \<Rightarrow> JUndefined)"

definition numberField :: "string \<Rightarrow> jsval \<Rightarrow> nat \<Rightarrow> int" where
  "numberField k row i = (case getProperty row k of Inr (JNum n) \<Rightarrow> n | _ \<Rightarrow> 0)"

definition abcRow :: "nat \<Rightarrow> int \<Rightarrow> int \<Rightarrow> int \<Rightarrow> jsval" where
  "abcRow r a b c = JObject r [(''a'', JNum a), (''b'', JNum b), (''c'', JNum c)]"

text \<open>The result selector \<open>(outer, inner) => ({ outer: outer, inner: inner })\<close>.\<close>

definition pairRow :: "jsval \<Rightarrow> jsval \<Rightarrow> jsval" where
  "pairRow outerRow innerRow = JObject 0 [(''outer'', outerRow), (''inner'', innerRow)]"

section \<open>Vocabulary of the statements\<close>

text \<open>
  \<open>sameNameCount n names\<close> is the number of names in \<open>names\<close> that equal \<open>n\<close> ignoring
  case.
\<close>

definition sameNameCount :: "string \<Rightarrow> string list \<Rightarrow> nat" where
  "sameNameCount n names = length (filter (\<lambda>m. toLowerCase m = toLowerCase n) names)"

text \<open>
  The states of the two dictionaries of \<open>initColumnNames\<close>: a key is \<open>numbered\<close> when
  it is absent or holds a positive number, \<open>numberAt\<close> is that number (0 when absent);
  \<open>nextNumber\<close> is the number \<open>columnNoMap\<close> will give the next name of a key (1 when
  the key is absent).
\<close>

definition numbered :: "(string \<rightharpoonup> cell) \<Rightarrow> string \<Rightarrow> bool" where
  "numbered m k \<longleftrightarrow> m k = None \<or> (\<exists>n > 0. m k = Some (Number n))"

definition numberAt :: "(string \<rightharpoonup> cell) \<Rightarrow> string \<Rightarrow> nat" where
  "numberAt m k = (case m k of Some (Number n) \<Rightarrow> n | _ \<Rightarrow> 0)"

definition nextNumber :: "(string \<rightharpoonup> cell) \<Rightarrow> string \<Rightarrow> nat" where
  "nextNumber m k = (case m k of Some (Number n) \<Rightarrow> n | _ \<Rightarrow> 1)"

definition allNumbers :: "(string \<rightharpoonup> cell) \<Rightarrow> bool" where
  "allNumbers m \<longleftrightarrow> (\<forall>k. m k = None \<or> (\<exists>n. m k = Some (Number n)))"








section \<open>Verified properties\<close>

subsection \<open>Construction and the simple operators\<close>

lemma where_df_values: "values' (where_df p this) = filter p (values' this)"
  by (simp add: where_df_def initFromConfig_def emptyConfig_def whereIterable_def)

lemma where_df_pairs: "pairs (where_df p this) = filter (\<lambda>pair. p (snd pair)) (pairs this)"
  by (simp add: where_df_def initFromConfig_def emptyConfig_def whereIterable_def)

lemma strictEquals_undefined [simp]: "strictEquals v JUndefined = (v = JUndefined)"
  by (cases v) (simp_all add: strictEquals_def)

lemma strictEquals_null [simp]: "strictEquals v JNull = (v = JNull)"
  by (cases v) (simp_all add: strictEquals_def)

subsection \<open>\<open>except\<close> followed by \<open>intersection\<close>\<close>

text \<open>
  Claim C7. For any two dataframes \<open>A\<close> and \<open>B\<close>, with the default key selectors,
  \<open>A.except(B).intersection(B)\<close> is empty: it has no values and no pairs, so \<open>toArray\<close>
  and \<open>toPairs\<close> give the empty array.
\<close>

theorem except_intersection_empty:
  "values' (intersection B None None (except B None None A)) = [] \<and>
   pairs (intersection B None None (except B None None A)) = [] \<and>
   toArray (intersection B None None (except B None None A)) = [] \<and>
   toPairs (intersection B None None (except B None None A)) = []"
proof -
  let ?R = "intersection B None None (except B None None A)"
  have v: "values' ?R = []"
    by (simp add: intersection_def except_def where_df_values any_def none_def)
  have p: "pairs ?R = []"
    by (simp add: intersection_def except_def where_df_values where_df_pairs any_def none_def)
  show ?thesis
    using v p by (simp add: toArray_def toPairs_def)
qed

subsection \<open>\<open>first\<close> and \<open>last\<close>\<close>

lemma first_empty:
  "values' this = [] \<Longrightarrow> first this = Inl (Error ''No values in Series.'')"
  by (simp add: first_def)

lemma last_empty:
  "values' this = [] \<Longrightarrow> last' this = Inl (Error ''No values in Series.'')"
  by (simp add: last'_def)

lemma first_nonempty: "any None this \<Longrightarrow> first this = Inr (hd (values' this))"
  by (cases "values' this") (simp_all add: first_def any_def)

lemma foldl_keep_last: "foldl (\<lambda>lastValue v. v) a xs = (if xs = [] then a else last xs)"
  by (induction xs arbitrary: a) simp_all

lemma last_nonempty:
  "any None this \<Longrightarrow>
     last' this =
       (if last (values' this) = JNull then Inl (Error ''No values in Series.'')
        else Inr (last (values' this)))"
  by (simp add: last'_def any_def foldl_keep_last)

text \<open>
  Claim C8. On the dataframe \<open>new DataFrame({ values: [{ A: 1 }, null] })\<close> the call
  \<open>any()\<close> returns true and \<open>first()\<close> returns the first row, but \<open>last()\<close> throws
  "No values in Series.": the loop variable \<open>lastValue\<close> starts as \<open>null\<close> and the final row
  is \<open>null\<close>, which the test after the loop takes for an empty dataframe.
\<close>

theorem last_throws_on_null_final_row:
  "any None (initFromConfig (emptyConfig \<lparr>cfg_values := Some [JObject 0 [(''A'', JNum 1)], JNull]\<rparr>))
   \<and> first (initFromConfig (emptyConfig \<lparr>cfg_values := Some [JObject 0 [(''A'', JNum 1)], JNull]\<rparr>))
       = Inr (JObject 0 [(''A'', JNum 1)])
   \<and> last' (initFromConfig (emptyConfig \<lparr>cfg_values := Some [JObject 0 [(''A'', JNum 1)], JNull]\<rparr>))
       = Inl (Error ''No values in Series.'')"
  by (simp add: any_def first_def last'_def initFromConfig_def emptyConfig_def)

subsection \<open>\<open>toArray\<close> and \<open>toPairs\<close>\<close>








subsection \<open>Chains of \<open>orderBy\<close> and \<open>thenBy\<close>\<close>

lemma parentSortSpecs_parent:
  "snd (snd (snd (parentSortSpecs valueSortSpecs pairSortSpecs level p))) = None"
  by (induction valueSortSpecs pairSortSpecs level p rule: parentSortSpecs.induct) simp_all

lemma newOrderedDataFrame_parent: "parent (newOrderedDataFrame vs ps sel dir p) = None"
proof -
  obtain a b l q where r: "parentSortSpecs [] [] 0 p = (a, b, l, q)"
    by (cases "parentSortSpecs ([] :: (jsval, 'a) sortSpec list) [] 0 p") auto
  with parentSortSpecs_parent [of "[]" "[]" 0 p] have "q = None" by simp
  with r show ?thesis by (simp add: newOrderedDataFrame_def Let_def)
qed

lemma newOrderedDataFrame_fields:
  "selectorOf (newOrderedDataFrame vs ps sel dir p) = sel"
  "directionOf (newOrderedDataFrame vs ps sel dir p) = dir"
  "origValues (newOrderedDataFrame vs ps sel dir p) = vs"
  "origPairs (newOrderedDataFrame vs ps sel dir p) = ps"
  by (simp_all add: newOrderedDataFrame_def Let_def split: prod.splits)

text \<open>
  Whatever the chain before it, \<open>thenBy\<close> sorts by the selector of its immediate
  predecessor at level 0 and by its own selector at level 1: the levels before the
  predecessor are lost, because the predecessor's \<open>parent\<close> field is always \<open>null\<close>.
\<close>

lemma thenBy_content:
  "contentOf (thenBy sel (newOrderedDataFrame vs ps sel0 dir0 p)) =
     initFromConfig
       (emptyConfig
          \<lparr>cfg_values :=
             Some (orderedIterable vs
                     [makeSortSpec 0 sel0 dir0, makeSortSpec 1 sel Ascending]),
           cfg_pairs :=
             Some (orderedIterable ps
                     [makeSortSpec 0 (makePairsSelector sel0) dir0,
                      makeSortSpec 1 (makePairsSelector sel) Ascending])\<rparr>)"
proof -
  let ?o = "newOrderedDataFrame vs ps sel0 dir0 p"
  obtain q c where o: "?o = OrderedDataFrame q sel0 dir0 vs ps c"
    by (cases ?o) (use newOrderedDataFrame_fields [of vs ps sel0 dir0 p] in auto)
  from newOrderedDataFrame_parent [of vs ps sel0 dir0 p] o have q: "q = None" by simp
  show ?thesis
    unfolding thenBy_def newOrderedDataFrame_fields
    by (simp add: o q newOrderedDataFrame_def [of vs ps sel Ascending])
qed

lemma thenBy_thenBy_drops_first_level:
  "contentOf (thenBy sel3 (thenBy sel2 (orderBy sel1 df)))
     = contentOf (thenBy sel3 (orderBy sel2 df))"
  unfolding thenBy_def [of sel2] orderBy_def newOrderedDataFrame_fields thenBy_content ..

text \<open>
  Claim C1. On the rows \<open>{a:2,b:1,c:1}\<close>, \<open>{a:1,b:1,c:2}\<close>, \<open>{a:1,b:1,c:1}\<close> the chain
  \<open>orderBy(a).thenBy(b).thenBy(c)\<close> gives the rows in the order of \<open>(b, c)\<close> alone, with the
  row of \<open>a = 2\<close> first: the level of \<open>orderBy\<close> takes no part in the comparison. The chain
  \<open>orderBy(a).thenBy(b)\<close> does sort by \<open>a\<close> first.
\<close>

theorem three_level_chain_ignores_orderBy:
  "values'
     (contentOf
        (thenBy (numberField ''c'')
           (thenBy (numberField ''b'')
              (orderBy (numberField ''a'')
                 (initFromConfig
                    (emptyConfig
                       \<lparr>cfg_values := Some [abcRow 1 2 1 1, abcRow 2 1 1 2, abcRow 3 1 1 1]\<rparr>))))))
     = [abcRow 1 2 1 1, abcRow 3 1 1 1, abcRow 2 1 1 2]
   \<and> values'
     (contentOf
        (thenBy (numberField ''b'')
           (orderBy (numberField ''a'')
              (initFromConfig
                 (emptyConfig
                    \<lparr>cfg_values := Some [abcRow 1 2 1 1, abcRow 2 1 1 2, abcRow 3 1 1 1]\<rparr>)))))
     = [abcRow 2 1 1 2, abcRow 3 1 1 1, abcRow 1 2 1 1]"
proof -
  let ?df = "initFromConfig
    (emptyConfig \<lparr>cfg_values := Some [abcRow 1 2 1 1, abcRow 2 1 1 2, abcRow 3 1 1 1]\<rparr>)"
  have v: "values' ?df = [abcRow 1 2 1 1, abcRow 2 1 1 2, abcRow 3 1 1 1]"
    by (simp add: initFromConfig_def emptyConfig_def)
  have two_levels:
    "values' (contentOf (thenBy s2 (orderBy s1 ?df)))
       = orderedIterable [abcRow 1 2 1 1, abcRow 2 1 1 2, abcRow 3 1 1 1]
           [makeSortSpec 0 s1 Ascending, makeSortSpec 1 s2 Ascending]"
    for s1 s2 :: "jsval \<Rightarrow> nat \<Rightarrow> int"
    unfolding orderBy_def thenBy_content v
    by (simp add: initFromConfig_def emptyConfig_def)
  have "values' (contentOf (thenBy (numberField ''c'') (thenBy (numberField ''b'')
                 (orderBy (numberField ''a'') ?df))))
          = values' (contentOf (thenBy (numberField ''c'') (orderBy (numberField ''b'') ?df)))"
    by (simp only: thenBy_thenBy_drops_first_level)
  also have "\<dots> = [abcRow 1 2 1 1, abcRow 3 1 1 1, abcRow 2 1 1 2]"
    unfolding two_levels
    by (simp add: orderedIterable_def makeSortSpec_def numberField_def abcRow_def upt_rec)
  finally have three:
    "values' (contentOf (thenBy (numberField ''c'') (thenBy (numberField ''b'')
                 (orderBy (numberField ''a'') ?df))))
       = [abcRow 1 2 1 1, abcRow 3 1 1 1, abcRow 2 1 1 2]" .
  have two: "values' (contentOf (thenBy (numberField ''b'') (orderBy (numberField ''a'') ?df)))
               = [abcRow 2 1 1 2, abcRow 3 1 1 1, abcRow 1 2 1 1]"
    unfolding two_levels
    by (simp add: orderedIterable_def makeSortSpec_def numberField_def abcRow_def upt_rec)
  from three two show ?thesis by simp
qed

subsection \<open>\<open>sequentialDistinct\<close>\<close>

lemma selectIterable_map: "selectIterable (\<lambda>x i. f x) xs = map f xs"
proof -
  have "map (\<lambda>(i, x). f x) (zip is xs) = map f xs" if "length is = length xs" for "is" :: "nat list"
    using that by (induction "is" xs rule: list_induct2) simp_all
  then show ?thesis
    by (simp add: selectIterable_def enumerate_eq_zip)
qed

lemma mapResult_total:
  "(\<And>x. x \<in> set xs \<Longrightarrow> f x = Inr (g x)) \<Longrightarrow> mapResult f xs = Inr (map g xs)"
  by (induction xs) simp_all

lemma mapResult_map: "mapResult f (map g xs) = mapResult (f \<circ> g) xs"
  by (induction xs) (auto split: sum.splits)

lemma mapResult_enumerate: "mapResult (\<lambda>(i, v). f v) (enumerate n xs) = mapResult f xs"
  by (induction xs arbitrary: n) (auto split: sum.splits)

lemma zip_fst_snd_map: "zip (map (fst \<circ> f) xs) (map (snd \<circ> f) xs) = map f xs"
  by (induction xs) simp_all

lemma splitRuns_nonempty: "run \<in> set (splitRuns comparer xs) \<Longrightarrow> run \<noteq> []"
  by (induction comparer xs arbitrary: run rule: splitRuns.induct)
     (auto split: list.splits if_splits)

lemma windowHead_of_run:
  "run \<noteq> [] \<Longrightarrow>
     windowHead (initFromConfig (emptyConfig \<lparr>cfg_columnNames := Some names, cfg_pairs := Some run\<rparr>))
       = Inr (hd run)"
  by (cases run)
     (simp_all add: windowHead_def index_first_def first_def initFromConfig_def emptyConfig_def)

text \<open>
  What \<open>sequentialDistinct\<close> computes: the pairs of its result are the first pair of every
  run of adjacent rows with strictly equal selector values.
\<close>

lemma sequentialDistinct_keeps_first:
  "\<exists>result. sequentialDistinct sel this = Inr result \<and>
      pairs result =
        map hd (splitRuns (\<lambda>a b. strictEquals (selectorOrIdentity sel (snd a))
                                    (selectorOrIdentity sel (snd b)))
                  (pairs this))"
proof -
  let ?runs = "splitRuns (\<lambda>a b. strictEquals (selectorOrIdentity sel (snd a))
                                    (selectorOrIdentity sel (snd b))) (pairs this)"
  let ?windows = "variableWindow (\<lambda>a b. strictEquals (selectorOrIdentity sel a)
                                    (selectorOrIdentity sel b)) this"
  have w: "values' ?windows =
             map (\<lambda>run. initFromConfig
                    (emptyConfig \<lparr>cfg_columnNames := Some (columnNames this), cfg_pairs := Some run\<rparr>))
               ?runs"
    by (simp add: variableWindow_def variableWindowIterable_def newSeries_def)
  have "series_select (\<lambda>window i. windowHead window) ?windows =
          Inr (newSeries (map hd ?runs) (Some (index ?windows)))"
  proof -
    have "mapResult
            (windowHead \<circ> (\<lambda>run. initFromConfig
               (emptyConfig \<lparr>cfg_columnNames := Some (columnNames this), cfg_pairs := Some run\<rparr>)))
            ?runs = Inr (map hd ?runs)"
      by (rule mapResult_total) (simp add: windowHead_of_run splitRuns_nonempty)
    then show ?thesis by (simp add: series_select_def mapResult_enumerate w mapResult_map)
  qed
  then show ?thesis
    by (simp add: sequentialDistinct_def Let_def series_inflate_def series_withIndex_def
        newSeries_def selectIterable_map initFromConfig_def emptyConfig_def zip_fst_snd_map)
qed

text \<open>
  Claim C2. On the rows \<open>{k:1,v:"a"}\<close>, \<open>{k:1,v:"b"}\<close>, \<open>{k:2,v:"c"}\<close> (index 0, 1, 2),
  \<open>sequentialDistinct(row => row.k)\<close> collapses the run of the first two rows to its
  first row, with index 0; the documentation of the method and the claim say the last
  row of the run, \<open>{k:1,v:"b"}\<close> with index 1, is the one returned.
\<close>

theorem sequentialDistinct_returns_first_of_run:
  "map_sum id pairs
     (sequentialDistinct (Some (fieldSelector ''k''))
        (initFromConfig
           (emptyConfig
              \<lparr>cfg_values :=
                 Some [JObject 1 [(''k'', JNum 1), (''v'', JStr ''a'')],
                       JObject 2 [(''k'', JNum 1), (''v'', JStr ''b'')],
                       JObject 3 [(''k'', JNum 2), (''v'', JStr ''c'')]]\<rparr>)))
     = Inr [(JNum 0, JObject 1 [(''k'', JNum 1), (''v'', JStr ''a'')]),
            (JNum 2, JObject 3 [(''k'', JNum 2), (''v'', JStr ''c'')])]"
proof -
  let ?df = "initFromConfig
           (emptyConfig
              \<lparr>cfg_values :=
                 Some [JObject 1 [(''k'', JNum 1), (''v'', JStr ''a'')],
                       JObject 2 [(''k'', JNum 1), (''v'', JStr ''b'')],
                       JObject 3 [(''k'', JNum 2), (''v'', JStr ''c'')]]\<rparr>)"
  have p: "pairs ?df = [(JNum 0, JObject 1 [(''k'', JNum 1), (''v'', JStr ''a'')]),
                        (JNum 1, JObject 2 [(''k'', JNum 1), (''v'', JStr ''b'')]),
                        (JNum 2, JObject 3 [(''k'', JNum 2), (''v'', JStr ''c'')])]"
    by (simp add: initFromConfig_def emptyConfig_def upt_rec)
  from sequentialDistinct_keeps_first [of "Some (fieldSelector ''k'')" ?df]
  obtain result where r: "sequentialDistinct (Some (fieldSelector ''k'')) ?df = Inr result"
    and "pairs result =
        map hd (splitRuns (\<lambda>a b. strictEquals (selectorOrIdentity (Some (fieldSelector ''k'')) (snd a))
                                    (selectorOrIdentity (Some (fieldSelector ''k'')) (snd b)))
                  (pairs ?df))"
    by blast
  then have "pairs result = [(JNum 0, JObject 1 [(''k'', JNum 1), (''v'', JStr ''a'')]),
                             (JNum 2, JObject 3 [(''k'', JNum 2), (''v'', JStr ''c'')])]"
    unfolding p by (simp add: selectorOrIdentity_def fieldSelector_def strictEquals_def)
  with r show ?thesis by simp
qed

subsection \<open>\<open>groupBy\<close>\<close>

text \<open>
  Claim C3. On the single row \<open>{k:"constructor"}\<close>, \<open>groupBy(row => row.k)\<close> throws a
  \<open>TypeError\<close> when its result is traversed: \<open>groupMap["constructor"]\<close> is the function
  that every plain object inherits, it is truthy and has no method \<open>push\<close>. The claim says
  the row is collected into a group under the key "constructor". The keys 1 and "1" do
  fall into one group, and the groups are in order of first appearance.
\<close>

theorem groupBy_throws_on_inherited_key:
  "groupBy (\<lambda>row i. fieldSelector ''k'' row)
     (initFromConfig
        (emptyConfig \<lparr>cfg_values := Some [JObject 1 [(''k'', JStr ''constructor'')]]\<rparr>))
     = Inl (TypeError ''existingGroup.push is not a function'')
   \<and> map_sum id (map pairs \<circ> values')
       (groupBy (\<lambda>row i. fieldSelector ''k'' row)
          (initFromConfig
             (emptyConfig
                \<lparr>cfg_values := Some [JObject 1 [(''k'', JStr ''1'')],
                                      JObject 2 [(''k'', JStr ''0'')],
                                      JObject 3 [(''k'', JNum 1)]]\<rparr>)))
     = Inr [[(JNum 0, JObject 1 [(''k'', JStr ''1'')]), (JNum 2, JObject 3 [(''k'', JNum 1)])],
            [(JNum 1, JObject 2 [(''k'', JStr ''0'')])]]"
  by (simp add: groupBy_def initFromConfig_def emptyConfig_def fieldSelector_def objectGet_def
      objectPrototypeProps_def newSeries_def showInt_def showNat.simps digitChar_def upt_rec)

subsection \<open>\<open>hasSeries\<close>, \<open>expectSeries\<close> and \<open>getSeries\<close>\<close>

lemma getProperty_error:
  "getProperty row k = Inl e \<Longrightarrow> (row = JUndefined \<or> row = JNull) \<and> (\<exists>msg. e = TypeError msg)"
  by (cases row) auto

lemma getProperty_object_absent:
  "k \<notin> fst ` set fs \<Longrightarrow> k \<notin> set objectPrototypeProps \<Longrightarrow>
     getProperty (JObject r fs) k = Inr JUndefined"
  by (simp add: inheritedProperty_def map_of_eq_None_iff [THEN iffD2])

lemma mapResult_error:
  "mapResult f xs = Inl e \<Longrightarrow> \<exists>x \<in> set xs. f x = Inl e"
  by (induction xs) (auto split: sum.splits)

lemma mapResult_values:
  "mapResult f xs = Inr ys \<Longrightarrow> map Inr ys = map f xs"
  by (induction xs arbitrary: ys) (auto split: sum.splits)

lemma mapResult_some_error:
  "x \<in> set xs \<Longrightarrow> f x = Inl e \<Longrightarrow> \<exists>e'. mapResult f xs = Inl e'"
  by (induction xs) (auto split: sum.splits)

lemma getSeries_error:
  "getSeries name this = Inl e \<Longrightarrow>
     (\<exists>msg. e = TypeError msg) \<and> (\<exists>row \<in> set (values' this). row = JUndefined \<or> row = JNull)"
proof -
  assume "getSeries name this = Inl e"
  then have "mapResult (\<lambda>row. getProperty row name) (values' this) = Inl e"
    by (simp add: getSeries_def split: sum.splits)
  then obtain row where "row \<in> set (values' this)" "getProperty row name = Inl e"
    by (blast dest: mapResult_error)
  then show ?thesis by (blast dest: getProperty_error)
qed

lemma getSeries_values:
  assumes "getSeries name this = Inr s"
  shows "index s = index this"
    and "map Inr (values' s) = map (\<lambda>row. getProperty row name) (values' this)"
proof -
  from assms obtain vs where m: "mapResult (\<lambda>row. getProperty row name) (values' this) = Inr vs"
    and s: "s = newSeries vs (Some (index this))"
    by (auto simp: getSeries_def split: sum.splits)
  show "index s = index this" by (simp add: s newSeries_def Let_def)
  from mapResult_values [OF m]
  show "map Inr (values' s) = map (\<lambda>row. getProperty row name) (values' this)"
    by (simp add: s newSeries_def Let_def)
qed

text \<open>
  Claim C10, as amended. \<open>hasSeries(name)\<close> holds exactly when some column name equals
  \<open>name\<close> ignoring case; \<open>expectSeries(name)\<close> throws its error exactly when
  \<open>hasSeries(name)\<close> is false and is \<open>getSeries(name)\<close> otherwise. The series of
  \<open>getSeries(name)\<close> has the index of the dataframe and, for every row, the property of
  exactly that name: traversing it throws a \<open>TypeError\<close> exactly when some row is
  \<open>undefined\<close> or \<open>null\<close>, and its value at an object row that has no own property
  \<open>name\<close> is \<open>undefined\<close> (provided \<open>name\<close> names no inherited property).
\<close>

theorem expectSeries_reads_exact_name:
  "(hasSeries name this \<longleftrightarrow>
      (\<exists>c \<in> set (getColumnNames this). toLowerCase c = toLowerCase name))
   \<and> ((\<exists>msg. expectSeries name this = Inl (Error msg)) \<longleftrightarrow> \<not> hasSeries name this)
   \<and> (hasSeries name this \<longrightarrow> expectSeries name this = getSeries name this)
   \<and> ((\<exists>e. getSeries name this = Inl e) \<longleftrightarrow>
         (\<exists>row \<in> set (values' this). row = JUndefined \<or> row = JNull))
   \<and> (\<forall>s. getSeries name this = Inr s \<longrightarrow>
         index s = index this
         \<and> map Inr (values' s) = map (\<lambda>row. getProperty row name) (values' this)
         \<and> (\<forall>i < length (values' this). \<forall>r fs.
               values' this ! i = JObject r fs \<longrightarrow> name \<notin> fst ` set fs
               \<longrightarrow> name \<notin> set objectPrototypeProps \<longrightarrow> values' s ! i = JUndefined))"
proof (intro conjI allI impI)
  show "hasSeries name this \<longleftrightarrow>
      (\<exists>c \<in> set (getColumnNames this). toLowerCase c = toLowerCase name)"
    by (simp add: hasSeries_def list_ex_iff)
next
  show "(\<exists>msg. expectSeries name this = Inl (Error msg)) \<longleftrightarrow> \<not> hasSeries name this"
  proof
    assume "\<exists>msg. expectSeries name this = Inl (Error msg)"
    then obtain msg where e: "expectSeries name this = Inl (Error msg)" ..
    show "\<not> hasSeries name this"
    proof
      assume "hasSeries name this"
      with e have "getSeries name this = Inl (Error msg)" by (simp add: expectSeries_def)
      then show False by (auto dest: getSeries_error)
    qed
  next
    assume "\<not> hasSeries name this"
    then show "\<exists>msg. expectSeries name this = Inl (Error msg)"
      by (simp add: expectSeries_def)
  qed
next
  assume "hasSeries name this"
  then show "expectSeries name this = getSeries name this"
    by (simp add: expectSeries_def)
next
  show "(\<exists>e. getSeries name this = Inl e) \<longleftrightarrow>
         (\<exists>row \<in> set (values' this). row = JUndefined \<or> row = JNull)"
  proof
    assume "\<exists>e. getSeries name this = Inl e"
    then show "\<exists>row \<in> set (values' this). row = JUndefined \<or> row = JNull"
      by (blast dest: getSeries_error)
  next
    assume "\<exists>row \<in> set (values' this). row = JUndefined \<or> row = JNull"
    then obtain row where r: "row \<in> set (values' this)" "row = JUndefined \<or> row = JNull"
      by blast
    then have "\<exists>e. getProperty row name = Inl e" by auto
    then obtain e where "getProperty row name = Inl e" ..
    with r(1) have "\<exists>e'. mapResult (\<lambda>row. getProperty row name) (values' this) = Inl e'"
      by (rule mapResult_some_error)
    then show "\<exists>e. getSeries name this = Inl e"
      by (auto simp: getSeries_def)
  qed
next
  fix s
  assume s: "getSeries name this = Inr s"
  show "index s = index this" by (rule getSeries_values(1) [OF s])
  show m: "map Inr (values' s) = map (\<lambda>row. getProperty row name) (values' this)"
    by (rule getSeries_values(2) [OF s])
  fix i r fs
  assume i: "i < length (values' this)" and row: "values' this ! i = JObject r fs"
    and absent: "name \<notin> fst ` set fs" "name \<notin> set objectPrototypeProps"
  from m have len: "length (values' s) = length (values' this)"
    by (metis length_map)
  from m have "map Inr (values' s) ! i = map (\<lambda>row. getProperty row name) (values' this) ! i"
    by simp
  with i len have "Inr (values' s ! i) = getProperty (values' this ! i) name"
    by simp
  also have "\<dots> = Inr JUndefined"
    unfolding row by (rule getProperty_object_absent [OF absent])
  finally show "values' s ! i = JUndefined" by simp
qed

text \<open>
  The theorem at the dataframe \<open>new DataFrame({ values: [{ A: 1 }, { A: 2 }] })\<close> and
  the name \<open>a\<close>: the column \<open>A\<close> matches, nothing is thrown, and every value is
  \<open>undefined\<close>.
\<close>

theorem expectSeries_reads_exact_name_witness:
  "hasSeries ''a''
     (initFromConfig
        (emptyConfig
           \<lparr>cfg_values := Some [JObject 1 [(''A'', JNum 1)], JObject 2 [(''A'', JNum 2)]]\<rparr>))
   \<and> (\<exists>s. expectSeries ''a''
          (initFromConfig
             (emptyConfig
                \<lparr>cfg_values := Some [JObject 1 [(''A'', JNum 1)], JObject 2 [(''A'', JNum 2)]]\<rparr>))
          = Inr s \<and> values' s = [JUndefined, JUndefined])"
proof -
  let ?df = "initFromConfig
        (emptyConfig
           \<lparr>cfg_values := Some [JObject 1 [(''A'', JNum 1)], JObject 2 [(''A'', JNum 2)]]\<rparr>)"
  note t = expectSeries_reads_exact_name [of "''a''" ?df]
  have v: "values' ?df = [JObject 1 [(''A'', JNum 1)], JObject 2 [(''A'', JNum 2)]]"
    by (simp add: initFromConfig_def emptyConfig_def)
  have c: "getColumnNames ?df = [''A'']"
    by (simp add: getColumnNames_def initFromConfig_def emptyConfig_def columnNamesIterable_def
        rowKeys_def)
  have h: "hasSeries ''a'' ?df"
    using t c by (simp add: toLowerCase_def lowerChar_def)
  have "\<not> (\<exists>row \<in> set (values' ?df). row = JUndefined \<or> row = JNull)"
    unfolding v by simp
  with t have "\<not> (\<exists>e. getSeries ''a'' ?df = Inl e)" by blast
  then obtain s where s: "getSeries ''a'' ?df = Inr s"
    by (cases "getSeries ''a'' ?df") auto
  from t s have u: "\<forall>i < length (values' ?df). \<forall>r fs.
               values' ?df ! i = JObject r fs \<longrightarrow> ''a'' \<notin> fst ` set fs
               \<longrightarrow> ''a'' \<notin> set objectPrototypeProps \<longrightarrow> values' s ! i = JUndefined"
    and m: "map Inr (values' s) = map (\<lambda>row. getProperty row ''a'') (values' ?df)"
    by blast+
  from m have len: "length (values' s) = 2"
    unfolding v by (metis length_map length_Cons list.size(3) numeral_2_eq_2)
  have p: "''a'' \<notin> set objectPrototypeProps" by (simp add: objectPrototypeProps_def)
  from u [rule_format, of 0 1 "[(''A'', JNum 1)]"] p have z0: "values' s ! 0 = JUndefined"
    unfolding v by simp
  from u [rule_format, of 1 2 "[(''A'', JNum 2)]"] p have z1: "values' s ! 1 = JUndefined"
    unfolding v by simp
  from len z0 z1 have "values' s = [JUndefined, JUndefined]"
    by (cases "values' s"; cases "tl (values' s)"; cases "tl (tl (values' s))") auto
  moreover from t h s have "expectSeries ''a'' ?df = Inr s" by simp
  ultimately show ?thesis using h by blast
qed

text \<open>
  The claim as stated fails on \<open>new DataFrame({ values: [{ A: 1 }, { A: 2, a: 3 }] })\<close>:
  the only column is \<open>A\<close>, the name \<open>a\<close> differs from it in letter case only,
  \<open>expectSeries("a")\<close> does not throw, and the second value of the series is 3.
\<close>

theorem expectSeries_other_case_counterexample:
  "getColumnNames
     (initFromConfig
        (emptyConfig
           \<lparr>cfg_values := Some [JObject 1 [(''A'', JNum 1)],
                                 JObject 2 [(''A'', JNum 2), (''a'', JNum 3)]]\<rparr>)) = [''A'']
   \<and> hasSeries ''a''
     (initFromConfig
        (emptyConfig
           \<lparr>cfg_values := Some [JObject 1 [(''A'', JNum 1)],
                                 JObject 2 [(''A'', JNum 2), (''a'', JNum 3)]]\<rparr>))
   \<and> map_sum id values'
       (expectSeries ''a''
          (initFromConfig
             (emptyConfig
                \<lparr>cfg_values := Some [JObject 1 [(''A'', JNum 1)],
                                      JObject 2 [(''A'', JNum 2), (''a'', JNum 3)]]\<rparr>)))
     = Inr [JUndefined, JNum 3]"
  by (simp add: getColumnNames_def initFromConfig_def emptyConfig_def columnNamesIterable_def
      rowKeys_def hasSeries_def expectSeries_def getSeries_def newSeries_def toLowerCase_def
      lowerChar_def inheritedProperty_def objectPrototypeProps_def)

subsection \<open>\<open>initColumnNames\<close>\<close>

text \<open>The first loop counts, for every key that is not inherited, the names of that key.\<close>

lemma countColumnName_step:
  assumes "k \<notin> set objectPrototypeProps" and "numbered m k"
  shows "numbered (countColumnName m x) k
         \<and> numberAt (countColumnName m x) k
             = numberAt m k + (if toLowerCase x = k then 1 else 0)"
proof (cases "toLowerCase x = k")
  case True
  from assms(1) have np: "k \<noteq> ''__proto__''"
    by (auto simp: objectPrototypeProps_def)
  from assms(2) show ?thesis
    using True assms(1) np
    by (auto simp: numbered_def numberAt_def countColumnName_def objectGet_def objectSet_def
        Let_def)
next
  case False
  then have "countColumnName m x k = m k"
    by (auto simp: countColumnName_def objectSet_def Let_def split: slot.splits)
  with assms(2) False show ?thesis
    by (simp add: numbered_def numberAt_def)
qed

lemma countColumnNames_loop:
  assumes "k \<notin> set objectPrototypeProps" and "numbered m k"
  shows "numbered (countColumnNames m xs) k
         \<and> numberAt (countColumnNames m xs) k
             = numberAt m k + length (filter (\<lambda>x. toLowerCase x = k) xs)"
  using assms(2)
proof (induction xs arbitrary: m)
  case Nil
  then show ?case by simp
next
  case (Cons x xs)
  from countColumnName_step [OF assms(1) Cons.prems]
  have s: "numbered (countColumnName m x) k"
    and n: "numberAt (countColumnName m x) k
              = numberAt m k + (if toLowerCase x = k then 1 else 0)"
    by simp_all
  from Cons.IH [OF s] n show ?case by simp
qed

lemma greaterThanOne_counted:
  assumes "k \<notin> set objectPrototypeProps"
  shows "greaterThanOne (objectGet (countColumnNames Map.empty names) k)
           \<longleftrightarrow> 1 < length (filter (\<lambda>x. toLowerCase x = k) names)"
proof -
  let ?m = "countColumnNames Map.empty names"
  have "numbered Map.empty k" by (simp add: numbered_def)
  from countColumnNames_loop [OF assms this, of names]
  have s: "numbered ?m k"
    and n: "numberAt ?m k = length (filter (\<lambda>x. toLowerCase x = k) names)"
    by (simp_all add: numberAt_def)
  from s n assms show ?thesis
    by (auto simp: numbered_def numberAt_def objectGet_def)
qed

text \<open>
  The second loop: \<open>columnNoMap\<close> holds, for a key, the number the next name of that key
  will get (1 when the key is absent).
\<close>

lemma renameColumnNames_loop:
  assumes "\<forall>x \<in> set xs. toLowerCase x \<notin> set objectPrototypeProps" and "allNumbers nm"
  shows "renameColumnNames M nm xs =
           map (\<lambda>i. if greaterThanOne (objectGet M (toLowerCase (xs ! i)))
                     then xs ! i @ ''.'' @
                          showNat (nextNumber nm (toLowerCase (xs ! i))
                                   + length (filter (\<lambda>x. toLowerCase x = toLowerCase (xs ! i))
                                               (take i xs)))
                     else xs ! i)
             [0..<length xs]"
  using assms
proof (induction xs arbitrary: nm)
  case Nil
  then show ?case by simp
next
  case (Cons x xs)
  let ?k = "toLowerCase x"
  let ?G = "\<lambda>k. greaterThanOne (objectGet M k)"
  from Cons.prems(1) have kx: "?k \<notin> set objectPrototypeProps"
    and rest: "\<forall>y \<in> set xs. toLowerCase y \<notin> set objectPrototypeProps"
    by simp_all
  from kx have np: "?k \<noteq> ''__proto__''" by (auto simp: objectPrototypeProps_def)
  have upt: "[0..<length (x # xs)] = 0 # map Suc [0..<length xs]"
    by (simp add: upt_conv_Cons map_Suc_upt del: upt_Suc)
  show ?case
  proof (cases "?G ?k")
    case True
    let ?cur = "Number (nextNumber nm ?k)"
    define nm' where "nm' = objectSet nm ?k (plusOne ?cur)"
    from Cons.prems(2) have "nm ?k = None \<or> (\<exists>n. nm ?k = Some (Number n))"
      by (simp add: allNumbers_def)
    then have cur: "(case objectGet nm ?k of
                  Absent \<Rightarrow> Number 1 | Own c \<Rightarrow> c | Inherited \<Rightarrow> NativeText (nativeText ?k)) = ?cur"
      using kx by (auto simp: objectGet_def nextNumber_def)
    have nm': "allNumbers nm'"
      using Cons.prems(2) by (auto simp: nm'_def allNumbers_def objectSet_def)
    have next_same: "nextNumber nm' ?k = nextNumber nm ?k + 1"
      using np by (simp add: nm'_def nextNumber_def objectSet_def)
    have next_other: "nextNumber nm' k = nextNumber nm k" if "k \<noteq> ?k" for k
      using that by (simp add: nm'_def nextNumber_def objectSet_def)
    have step: "renameColumnNames M nm (x # xs)
                  = (x @ ''.'' @ showNat (nextNumber nm ?k)) # renameColumnNames M nm' xs"
      using True by (simp add: Let_def cur nm'_def)
    have tail: "renameColumnNames M nm' xs =
           map (\<lambda>i. if ?G (toLowerCase (xs ! i))
                     then xs ! i @ ''.'' @
                          showNat (nextNumber nm (toLowerCase (xs ! i))
                                   + length (filter (\<lambda>y. toLowerCase y = toLowerCase (xs ! i))
                                               (take (Suc i) (x # xs))))
                     else xs ! i)
             [0..<length xs]"
      unfolding Cons.IH [OF rest nm']
    proof (rule map_cong [OF refl])
      fix i
      show "(if ?G (toLowerCase (xs ! i))
             then xs ! i @ ''.'' @
                  showNat (nextNumber nm' (toLowerCase (xs ! i))
                           + length (filter (\<lambda>x. toLowerCase x = toLowerCase (xs ! i)) (take i xs)))
             else xs ! i)
            = (if ?G (toLowerCase (xs ! i))
               then xs ! i @ ''.'' @
                    showNat (nextNumber nm (toLowerCase (xs ! i))
                             + length (filter (\<lambda>y. toLowerCase y = toLowerCase (xs ! i))
                                         (take (Suc i) (x # xs))))
               else xs ! i)"
      proof (cases "toLowerCase (xs ! i) = ?k")
        case True
        then show ?thesis by (simp add: next_same)
      next
        case False
        then have "?k \<noteq> toLowerCase (xs ! i)" by simp
        with False show ?thesis by (simp add: next_other)
      qed
    qed
    show ?thesis
      unfolding step tail upt by (simp add: True comp_def)
  next
    case False
    have step: "renameColumnNames M nm (x # xs) = x # renameColumnNames M nm xs"
      using False by (simp add: Let_def)
    have tail: "renameColumnNames M nm xs =
           map (\<lambda>i. if ?G (toLowerCase (xs ! i))
                     then xs ! i @ ''.'' @
                          showNat (nextNumber nm (toLowerCase (xs ! i))
                                   + length (filter (\<lambda>y. toLowerCase y = toLowerCase (xs ! i))
                                               (take (Suc i) (x # xs))))
                     else xs ! i)
             [0..<length xs]"
      unfolding Cons.IH [OF rest Cons.prems(2)]
      by (rule map_cong) (use False in auto)
    show ?thesis
      unfolding step tail upt by (simp add: False comp_def)
  qed
qed

lemma sameNameCount_take_Suc:
  "i < length names \<Longrightarrow>
     sameNameCount (names ! i) (take (Suc i) names)
       = Suc (length (filter (\<lambda>x. toLowerCase x = toLowerCase (names ! i)) (take i names)))"
  by (simp add: sameNameCount_def take_Suc_conv_app_nth)

lemma initColumnNames_eq:
  assumes "\<forall>n \<in> set names. toLowerCase n \<notin> set objectPrototypeProps"
  shows "initColumnNames names =
           map (\<lambda>i. if 1 < sameNameCount (names ! i) names
                     then names ! i @ ''.'' @ showNat (sameNameCount (names ! i) (take (Suc i) names))
                     else names ! i)
             [0..<length names]"
proof -
  have e: "allNumbers Map.empty" by (simp add: allNumbers_def)
  show ?thesis
    unfolding initColumnNames_def renameColumnNames_loop [OF assms e]
  proof (rule map_cong [OF refl])
    fix i
    assume "i \<in> set [0..<length names]"
    then have i: "i < length names" by simp
    with assms have k: "toLowerCase (names ! i) \<notin> set objectPrototypeProps" by simp
    show "(if greaterThanOne (objectGet (countColumnNames Map.empty names) (toLowerCase (names ! i)))
           then names ! i @ ''.'' @
                showNat (nextNumber Map.empty (toLowerCase (names ! i))
                         + length (filter (\<lambda>x. toLowerCase x = toLowerCase (names ! i))
                                     (take i names)))
           else names ! i)
          = (if 1 < sameNameCount (names ! i) names
             then names ! i @ ''.'' @ showNat (sameNameCount (names ! i) (take (Suc i) names))
             else names ! i)"
      unfolding greaterThanOne_counted [OF k] sameNameCount_take_Suc [OF i]
      by (simp add: sameNameCount_def nextNumber_def)
  qed
qed

text \<open>Decimal texts: \<open>showNat\<close> is injective and its digits are not changed by \<open>toLowerCase\<close>.\<close>

lemma below_ten:
  "d < 10 \<Longrightarrow> d = 0 \<or> d = 1 \<or> d = 2 \<or> d = 3 \<or> d = 4 \<or> d = 5 \<or> d = 6 \<or> d = 7 \<or> d = 8 \<or> d = (9::nat)"
  by arith

lemma digitChar_code: "d < 10 \<Longrightarrow> (of_char (digitChar d) :: nat) = 48 + d"
  using below_ten [of d] by (auto simp: digitChar_def)

lemma digitChar_inj:
  assumes "d < 10" "e < 10" "digitChar d = digitChar e"
  shows "d = e"
proof -
  from assms(3) have "(of_char (digitChar d) :: nat) = of_char (digitChar e)" by simp
  with assms(1,2) show ?thesis by (simp add: digitChar_code)
qed

lemma lowerChar_digitChar: "lowerChar (digitChar d) = digitChar d"
proof -
  have "list_all (\<lambda>c. lowerChar c = c) ''0123456789''"
    by code_simp
  moreover have "digitChar d \<in> set ''0123456789''"
    unfolding digitChar_def by (rule nth_mem) simp
  ultimately show ?thesis
    by (simp only: list_all_iff)
qed

lemma showNat_nonempty: "showNat n \<noteq> []"
  by (subst showNat.simps) simp

lemma showNat_inj: "showNat n = showNat m \<Longrightarrow> n = m"
proof (induction n arbitrary: m rule: showNat.induct)
  case (1 n)
  show ?case
  proof (cases "n < 10")
    case small: True
    show ?thesis
    proof (cases "m < 10")
      case True
      with small "1.prems" show ?thesis
        by (simp add: showNat.simps [of n] showNat.simps [of m] digitChar_inj)
    next
      case False
      with small "1.prems" showNat_nonempty [of "m div 10"] show ?thesis
        by (simp add: showNat.simps [of n] showNat.simps [of m])
    qed
  next
    case big: False
    show ?thesis
    proof (cases "m < 10")
      case True
      with big "1.prems" showNat_nonempty [of "n div 10"] show ?thesis
        by (simp add: showNat.simps [of n] showNat.simps [of m])
    next
      case False
      with big "1.prems"
      have eq: "showNat (n div 10) = showNat (m div 10)"
        and d: "digitChar (n mod 10) = digitChar (m mod 10)"
        by (simp_all add: showNat.simps [of n] showNat.simps [of m])
      from "1.IH" [OF big eq] have "n div 10 = m div 10" .
      moreover from d have "n mod 10 = m mod 10"
        by (intro digitChar_inj) simp_all
      ultimately show ?thesis
        by (metis div_mult_mod_eq)
    qed
  qed
qed

lemma toLowerCase_showNat: "toLowerCase (showNat n) = showNat n"
proof (induction n rule: showNat.induct)
  case (1 n)
  show ?case
  proof (cases "n < 10")
    case True
    then show ?thesis
      by (simp add: showNat.simps [of n] toLowerCase_def lowerChar_digitChar)
  next
    case False
    with "1.IH" show ?thesis
      by (simp add: showNat.simps [of n] toLowerCase_def lowerChar_digitChar)
  qed
qed

lemma toLowerCase_suffixed:
  "toLowerCase (n @ ''.'' @ showNat k) = toLowerCase n @ ''.'' @ showNat k"
proof -
  have "toLowerCase (n @ ''.'' @ showNat k)
          = toLowerCase n @ toLowerCase ''.'' @ toLowerCase (showNat k)"
    by (simp add: toLowerCase_def)
  then show ?thesis
    by (simp add: toLowerCase_showNat) (simp add: toLowerCase_def lowerChar_def)
qed

lemma toLowerCase_suffixed_Cons:
  "toLowerCase (n @ CHR ''.'' # showNat k) = toLowerCase n @ CHR ''.'' # showNat k"
  using toLowerCase_suffixed [of n k] by simp

lemma sameNameCount_later:
  assumes "i < j" "j < length names" "toLowerCase (names ! i) = toLowerCase (names ! j)"
  shows "sameNameCount (names ! i) (take (Suc i) names)
           < sameNameCount (names ! j) (take (Suc j) names)"
proof -
  let ?P = "\<lambda>m. toLowerCase m = toLowerCase (names ! j)"
  from assms(1) have "take (Suc i) names = take (Suc i) (take j names)"
    by (simp add: min_def)
  then have "length (filter ?P (take (Suc i) names)) \<le> length (filter ?P (take j names))"
    by (metis append_take_drop_id filter_append length_append le_add1)
  moreover from assms(2)
  have "length (filter ?P (take (Suc j) names)) = Suc (length (filter ?P (take j names)))"
    by (simp add: take_Suc_conv_app_nth)
  ultimately show ?thesis
    by (simp add: sameNameCount_def assms(3))
qed







text \<open>
  Claim C6, as amended. At construction with column names of which none is, ignoring
  case, the name of a property every object inherits (such as \<open>constructor\<close>): the output
  has one name per input name; a name that has no duplicate ignoring case is kept as it
  is; every name that has duplicates, the first occurrence included, gets the suffix
  \<open>.k\<close>, where \<open>k\<close> counts its occurrences so far (\<open>name.1\<close>, \<open>name.2\<close>, \<dots>); and the
  output names of two input names that are equal ignoring case differ, also ignoring case.
\<close>

theorem initColumnNames_numbers_every_duplicate:
  assumes "\<forall>n \<in> set names. toLowerCase n \<notin> set objectPrototypeProps"
  shows "length (initColumnNames names) = length names
    \<and> (\<forall>i < length names.
          initColumnNames names ! i =
            (if 1 < sameNameCount (names ! i) names
             then names ! i @ ''.'' @ showNat (sameNameCount (names ! i) (take (Suc i) names))
             else names ! i))
    \<and> (\<forall>i < length names. \<forall>j < length names.
          i \<noteq> j \<longrightarrow> toLowerCase (names ! i) = toLowerCase (names ! j) \<longrightarrow>
          toLowerCase (initColumnNames names ! i) \<noteq> toLowerCase (initColumnNames names ! j))"
proof -
  let ?out = "\<lambda>i. if 1 < sameNameCount (names ! i) names
             then names ! i @ ''.'' @ showNat (sameNameCount (names ! i) (take (Suc i) names))
             else names ! i"
  note eq = initColumnNames_eq [OF assms]
  have len: "length (initColumnNames names) = length names"
    by (simp add: eq)
  have nth: "initColumnNames names ! i = ?out i" if "i < length names" for i
    using that by (simp add: eq)
  have ordered: "toLowerCase (?out i) \<noteq> toLowerCase (?out j)"
    if ij: "i < j" and j: "j < length names"
      and same: "toLowerCase (names ! i) = toLowerCase (names ! j)" for i j
  proof -
    from ij j have i: "i < length names" by simp
    have cnt: "sameNameCount (names ! i) names = sameNameCount (names ! j) names"
      by (simp add: sameNameCount_def same)
    have "names ! i \<in> set names" "names ! j \<in> set names"
      using i j by simp_all
    have two: "1 < sameNameCount (names ! j) names"
    proof -
      have "sameNameCount (names ! i) (take (Suc i) names) \<ge> 1"
        using i by (simp add: sameNameCount_take_Suc)
      with sameNameCount_later [OF ij j same]
      have "1 < sameNameCount (names ! j) (take (Suc j) names)" by simp
      also have "\<dots> \<le> sameNameCount (names ! j) names"
        unfolding sameNameCount_def
        by (metis append_take_drop_id filter_append length_append le_add1)
      finally show ?thesis .
    qed
    from sameNameCount_later [OF ij j same]
    have "showNat (sameNameCount (names ! i) (take (Suc i) names))
            \<noteq> showNat (sameNameCount (names ! j) (take (Suc j) names))"
      by (auto dest: showNat_inj)
    with two cnt same show ?thesis
      by (simp add: toLowerCase_suffixed_Cons)
  qed
  have distinct_out: "toLowerCase (initColumnNames names ! i) \<noteq> toLowerCase (initColumnNames names ! j)"
    if i: "i < length names" and j: "j < length names" and ne: "i \<noteq> j"
      and same: "toLowerCase (names ! i) = toLowerCase (names ! j)" for i j
  proof (cases "i < j")
    case True
    from ordered [OF True j same] show ?thesis by (simp add: nth i j)
  next
    case False
    with ne have "j < i" by simp
    from ordered [OF this i same [symmetric]] show ?thesis by (simp add: nth i j)
  qed
  from len nth distinct_out show ?thesis by blast
qed

text \<open>
  The theorem at \<open>["A", "a", "B"]\<close>: the names become \<open>A.1\<close>, \<open>a.2\<close> and \<open>B\<close>.
\<close>

theorem initColumnNames_numbers_every_duplicate_witness:
  "list_all (\<lambda>n. toLowerCase n \<notin> set objectPrototypeProps) [''A'', ''a'', ''B'']
   \<and> initColumnNames [''A'', ''a'', ''B''] ! 0 = ''A.1''
   \<and> initColumnNames [''A'', ''a'', ''B''] ! 1 = ''a.2''
   \<and> initColumnNames [''A'', ''a'', ''B''] ! 2 = ''B''
   \<and> toLowerCase (initColumnNames [''A'', ''a'', ''B''] ! 0)
       \<noteq> toLowerCase (initColumnNames [''A'', ''a'', ''B''] ! 1)"
proof -
  have h: "\<forall>n \<in> set [''A'', ''a'', ''B'']. toLowerCase n \<notin> set objectPrototypeProps"
    by code_simp
  note t = initColumnNames_numbers_every_duplicate [OF h]
  from t have o0: "initColumnNames [''A'', ''a'', ''B''] ! 0 = ''A.1''"
    by (simp add: sameNameCount_def toLowerCase_def lowerChar_def showNat.simps digitChar_def)
  from t have o1: "initColumnNames [''A'', ''a'', ''B''] ! 1 = ''a.2''"
    by (simp add: sameNameCount_def toLowerCase_def lowerChar_def showNat.simps digitChar_def)
  from t have o2: "initColumnNames [''A'', ''a'', ''B''] ! 2 = ''B''"
    by (simp add: sameNameCount_def toLowerCase_def lowerChar_def showNat.simps digitChar_def)
  have "toLowerCase (initColumnNames [''A'', ''a'', ''B''] ! 0)
          \<noteq> toLowerCase (initColumnNames [''A'', ''a'', ''B''] ! 1)"
    unfolding o0 o1 by (simp add: toLowerCase_def lowerChar_def)
  with o0 o1 o2 h show ?thesis by (simp add: list_all_iff)
qed

text \<open>
  The claim as stated fails on \<open>["A", "a"]\<close>: the first occurrence does not keep the
  bare name, the output is \<open>A.1\<close>, \<open>a.2\<close> and not \<open>A\<close>, \<open>a.1\<close>.
\<close>

theorem initColumnNames_first_occurrence_counterexample:
  "initColumnNames [''A'', ''a''] = [''A.1'', ''a.2'']
   \<and> initColumnNames [''A'', ''a''] \<noteq> [''A'', ''a.1'']"
  by code_simp

subsection \<open>\<open>withSeries\<close>\<close>














text \<open>
  A row whose index names an inherited property, and has no pair in the series, gets the
  built-in value: with the index \<open>"constructor"\<close> and the series of the pair \<open>(0, "q")\<close>,
  the column \<open>X\<close> of the row holds the function \<open>Object\<close>.
\<close>

lemma withSeries_inherited_index:
  "map (\<lambda>pair. getProperty (snd pair) ''X'')
     (pairs
        (withSeries (\<lambda>i. 10 + i) ''X'' (SeriesValue (newSeries [JStr ''q''] None))
           (initFromConfig
              (emptyConfig
                 \<lparr>cfg_values := Some [JObject 1 [(''A'', JNum 1)]],
                  cfg_index := Some (IndexIterable [JStr ''constructor''])\<rparr>))))
     = [Inr (JNative ''constructor'')]"
  by code_simp






subsection \<open>What \<open>groupBy\<close> computes\<close>











subsection \<open>The inner join\<close>









text \<open>
  An outer row whose key names an inherited property finds a built-in value in
  \<open>innerMap\<close>: the outer row \<open>{id:"constructor"}\<close>, joined on \<open>id\<close> with the inner row
  \<open>{id:2}\<close>, is paired once, with \<open>undefined\<close>.
\<close>

lemma join_inherited_outer_key:
  "map_sum id values'
     (join
        (initFromConfig (emptyConfig \<lparr>cfg_values := Some [JObject 2 [(''id'', JNum 2)]]\<rparr>))
        (fieldSelector ''id'') (fieldSelector ''id'') pairRow
        (initFromConfig
           (emptyConfig \<lparr>cfg_values := Some [JObject 1 [(''id'', JStr ''constructor'')]]\<rparr>)))
     = Inr [pairRow (JObject 1 [(''id'', JStr ''constructor'')]) JUndefined]"
  by code_simp

subsection \<open>The outer joins\<close>








end
